theory Spec2Isabelle
  imports Complex_Main
begin

section \<open>Data model (types.ts)\<close>

text \<open>
  JavaScript numbers are modelled as real numbers: the arithmetic of the canvas is
  read exactly, without rounding. JavaScript's division by zero gives an infinity or
  NaN, which the reals do not have; every theorem below that goes through a division
  assumes the divisor to be nonzero, so that the two agree.

  A \<open>Point\<close> (\<open>{x, y}\<close>) is a pair of reals.
\<close>

type_synonym point = "real \<times> real"

record ViewportTransform =
  vp_x :: real
  vp_y :: real
  vp_scale :: real

section \<open>Viewport transform (InfiniteCanvas: screenToCanvas, handleWheel)\<close>

text \<open>
  \<^verbatim>\<open>
  const screenToCanvas = (screenX, screenY) => ({
    x: (screenX - viewport.x) / viewport.scale,
    y: (screenY - viewport.y) / viewport.scale });
  \<close>
\<close>

definition screenToCanvas :: "ViewportTransform \<Rightarrow> real \<Rightarrow> real \<Rightarrow> point" where
  "screenToCanvas viewport screenX screenY =
     ((screenX - vp_x viewport) / vp_scale viewport,
      (screenY - vp_y viewport) / vp_scale viewport)"

text \<open>
  The world-to-screen map is not a function of the source; the renderer applies it as
  \<open>ctx.translate(viewport.x, viewport.y); ctx.scale(viewport.scale, viewport.scale)\<close>.
  This definition follows the specification's words: \<open>(wx, wy) \<mapsto> (wx * scale + x,
  wy * scale + y)\<close>.
\<close>

definition worldToScreen_spec :: "ViewportTransform \<Rightarrow> point \<Rightarrow> point" where
  "worldToScreen_spec viewport p =
     (fst p * vp_scale viewport + vp_x viewport,
      snd p * vp_scale viewport + vp_y viewport)"

text \<open>
  \<^verbatim>\<open>
  const zoom = e.deltaY < 0 ? 1.1 : 0.9;
  const newScale = Math.max(0.1, Math.min(10, viewport.scale * zoom));
  setViewport((prev) => ({
    x: mouseX - ((mouseX - prev.x) * newScale) / prev.scale,
    y: mouseY - ((mouseY - prev.y) * newScale) / prev.scale,
    scale: newScale }));
  \<close>
  \<open>viewport\<close> is the state the handler was created with and \<open>prev\<close> the state the
  updater receives; one wheel step on a settled state has both equal.
\<close>

definition handleWheel ::
  "real \<Rightarrow> real \<Rightarrow> real \<Rightarrow> ViewportTransform \<Rightarrow> ViewportTransform \<Rightarrow> ViewportTransform" where
  "handleWheel deltaY mouseX mouseY viewport prev =
     (let zoom = (if deltaY < 0 then 11 / 10 else 9 / 10);
          newScale = max (1 / 10) (min 10 (vp_scale viewport * zoom))
      in \<lparr> vp_x = mouseX - ((mouseX - vp_x prev) * newScale) / vp_scale prev,
           vp_y = mouseY - ((mouseY - vp_y prev) * newScale) / vp_scale prev,
           vp_scale = newScale \<rparr>)"

section \<open>Elements (types.ts)\<close>

datatype StrokeStyle = Solid | Dashed | Dotted

text \<open>
  Modelled from the spec: the declaration of \<open>TextDecorators\<close> is not among the
  sources; the specification gives a text element the optional decorators bold, italic,
  underline and strikethrough, and the renderer reads them as optional booleans.
\<close>

record TextDecorators =
  bold :: "bool option"
  italic :: "bool option"
  underline :: "bool option"
  strikethrough :: "bool option"

text \<open>
  The attributes every element has (\<open>interface CanvasElement\<close>, without the \<open>type\<close>
  tag, which is the constructor of the variant). An optional field is an \<open>option\<close>.
\<close>

record CanvasElement =
  ident :: string
  color :: string
  strokeWidth :: real
  fill :: "string option"
  opacity :: "real option"
  roughness :: "real option"
  strokeStyle :: "StrokeStyle option"
  seed :: "real option"
  selected :: "bool option"
  rotation :: "real option"

text \<open>
  The tagged union \<open>CanvasElementType\<close>. The arguments after the common attributes are,
  in the order of the interfaces: \<open>points\<close>; \<open>x y width height\<close>; \<open>x y radius\<close>;
  \<open>startX startY endX endY\<close>; \<open>x y text fontSize fontFamily textDecorators\<close>;
  \<open>x y width height src imageData\<close>. The decoded image is an opaque handle.
\<close>

datatype element =
    Path CanvasElement "point list"
  | Rectangle CanvasElement real real real real
  | Circle CanvasElement real real real
  | Ellipse CanvasElement real real real real
  | Diamond CanvasElement real real real real
  | Line CanvasElement real real real real
  | Arrow CanvasElement real real real real
  | Text CanvasElement real real string real string "TextDecorators option"
  | Image CanvasElement real real real real string "nat option"

fun common :: "element \<Rightarrow> CanvasElement" where
  "common (Path c pts) = c"
| "common (Rectangle c x y w h) = c"
| "common (Circle c x y r) = c"
| "common (Ellipse c x y w h) = c"
| "common (Diamond c x y w h) = c"
| "common (Line c sx sy ex ey) = c"
| "common (Arrow c sx sy ex ey) = c"
| "common (Text c x y t fs ff td) = c"
| "common (Image c x y w h src img) = c"

definition el_id :: "element \<Rightarrow> string" where
  "el_id el = ident (common el)"

record Bounds =
  bnd_x :: real
  bnd_y :: real
  bnd_width :: real
  bnd_height :: real

section \<open>Geometry (InfiniteCanvas: measureText, getElementBounds)\<close>

text \<open>
  \<open>measureText\<close> asks the 2D context for the width of the text in the given font and
  takes \<open>fontSize * 1.2\<close> as height; without a canvas or context it answers
  \<open>{width: 100, height: fontSize}\<close>. The context's text metrics are a parameter
  (\<open>None\<close>: no canvas). The memo table in front of the measurement is not modelled:
  the definition is the answer of a call that misses the table. A hit answers the size
  stored under the key \<open>text-fontSize-fontFamily\<close>, which is another text's size when
  two different triples are joined to the same key.
\<close>

type_synonym metrics = "string \<Rightarrow> real \<Rightarrow> string \<Rightarrow> real"

definition measureText :: "metrics option \<Rightarrow> string \<Rightarrow> real \<Rightarrow> string \<Rightarrow> real \<times> real" where
  "measureText ctx txt fontSize fontFamily =
     (case ctx of
        None \<Rightarrow> (100, fontSize)
      | Some m \<Rightarrow> (m txt fontSize fontFamily, fontSize * (12 / 10)))"

text \<open>
  \<open>getElementBounds\<close>, case by case as the source's \<open>switch\<close>: the shapes and the image
  return their stored \<open>x, y, width, height\<close>; the circle its enclosing square; line and
  arrow the minimum corner and the absolute differences of the end points; text the
  measured extent above the baseline (\<open>el.fontFamily || 'Arial'\<close>); a path the extent of
  its points, and \<open>null\<close> when it has none.
\<close>

fun getElementBounds :: "metrics option \<Rightarrow> element \<Rightarrow> Bounds option" where
  "getElementBounds ctx (Rectangle c x y w h) =
     Some \<lparr>bnd_x = x, bnd_y = y, bnd_width = w, bnd_height = h\<rparr>"
| "getElementBounds ctx (Ellipse c x y w h) =
     Some \<lparr>bnd_x = x, bnd_y = y, bnd_width = w, bnd_height = h\<rparr>"
| "getElementBounds ctx (Diamond c x y w h) =
     Some \<lparr>bnd_x = x, bnd_y = y, bnd_width = w, bnd_height = h\<rparr>"
| "getElementBounds ctx (Circle c x y r) =
     Some \<lparr>bnd_x = x - r, bnd_y = y - r, bnd_width = r * 2, bnd_height = r * 2\<rparr>"
| "getElementBounds ctx (Line c sx sy ex ey) =
     Some \<lparr>bnd_x = min sx ex, bnd_y = min sy ey,
           bnd_width = \<bar>ex - sx\<bar>, bnd_height = \<bar>ey - sy\<bar>\<rparr>"
| "getElementBounds ctx (Arrow c sx sy ex ey) =
     Some \<lparr>bnd_x = min sx ex, bnd_y = min sy ey,
           bnd_width = \<bar>ex - sx\<bar>, bnd_height = \<bar>ey - sy\<bar>\<rparr>"
| "getElementBounds ctx (Text c x y t fs ff td) =
     (let textSize = measureText ctx t fs (if ff = [] then ''Arial'' else ff)
      in Some \<lparr>bnd_x = x, bnd_y = y - snd textSize,
               bnd_width = fst textSize, bnd_height = snd textSize\<rparr>)"
| "getElementBounds ctx (Path c pts) =
     (if length pts = 0 then None
      else let xs = map fst pts; ys = map snd pts
           in Some \<lparr>bnd_x = Min (set xs), bnd_y = Min (set ys),
                    bnd_width = Max (set xs) - Min (set xs),
                    bnd_height = Max (set ys) - Min (set ys)\<rparr>)"
| "getElementBounds ctx (Image c x y w h src img) =
     Some \<lparr>bnd_x = x, bnd_y = y, bnd_width = w, bnd_height = h\<rparr>"

text \<open>
  \<open>isPointInElement\<close>: the point lies between the bounds' \<open>x\<close> and \<open>x + width\<close> and
  between \<open>y\<close> and \<open>y + height\<close>; an element without bounds contains no point.
\<close>

definition isPointInElement :: "metrics option \<Rightarrow> point \<Rightarrow> element \<Rightarrow> bool" where
  "isPointInElement ctx pt element =
     (case getElementBounds ctx element of
        None \<Rightarrow> False
      | Some bounds \<Rightarrow>
          fst pt \<ge> bnd_x bounds \<and> fst pt \<le> bnd_x bounds + bnd_width bounds \<and>
          snd pt \<ge> bnd_y bounds \<and> snd pt \<le> bnd_y bounds + bnd_height bounds)"

section \<open>Drawing (InfiniteCanvas: handleMouseMove, drawing branch)\<close>

text \<open>
  While a shape is drawn, each pointer move rewrites the draft from the current canvas
  point: a path gets the point appended; rectangle, ellipse and diamond get the signed
  differences to their origin as width and height; a circle the distance as radius;
  line and arrow the point as end point. Text and image are not drawn this way.
  Pointer-up appends the draft to the elements as it is.
\<close>

fun drawUpdate :: "point \<Rightarrow> element \<Rightarrow> element" where
  "drawUpdate canvasPoint (Path c pts) = Path c (pts @ [canvasPoint])"
| "drawUpdate canvasPoint (Rectangle c x y w h) =
     Rectangle c x y (fst canvasPoint - x) (snd canvasPoint - y)"
| "drawUpdate canvasPoint (Ellipse c x y w h) =
     Ellipse c x y (fst canvasPoint - x) (snd canvasPoint - y)"
| "drawUpdate canvasPoint (Diamond c x y w h) =
     Diamond c x y (fst canvasPoint - x) (snd canvasPoint - y)"
| "drawUpdate canvasPoint (Circle c x y r) =
     Circle c x y (sqrt ((fst canvasPoint - x)\<^sup>2 + (snd canvasPoint - y)\<^sup>2))"
| "drawUpdate canvasPoint (Line c sx sy ex ey) = Line c sx sy (fst canvasPoint) (snd canvasPoint)"
| "drawUpdate canvasPoint (Arrow c sx sy ex ey) = Arrow c sx sy (fst canvasPoint) (snd canvasPoint)"
| "drawUpdate canvasPoint el = el"

section \<open>Resizing (InfiniteCanvas: handleMouseMove, resize branch)\<close>

datatype handle = H_nw | H_n | H_ne | H_e | H_se | H_s | H_sw | H_w

text \<open>The state kept while a handle is dragged (\<open>resizeHandle\<close>).\<close>

record ResizeHandle =
  rh_handle :: handle
  rh_elementId :: string
  rh_startBounds :: Bounds
  rh_startPoint :: point

text \<open>\<open>handle.includes('w')\<close>, \<open>handle.includes('n')\<close> and the list of corner handles.\<close>

fun includes_w :: "handle \<Rightarrow> bool" where
  "includes_w H_nw = True"
| "includes_w H_sw = True"
| "includes_w H_w = True"
| "includes_w _ = False"

fun includes_n :: "handle \<Rightarrow> bool" where
  "includes_n H_nw = True"
| "includes_n H_n = True"
| "includes_n H_ne = True"
| "includes_n _ = False"

fun isCornerHandle :: "handle \<Rightarrow> bool" where
  "isCornerHandle H_nw = True"
| "isCornerHandle H_ne = True"
| "isCornerHandle H_se = True"
| "isCornerHandle H_sw = True"
| "isCornerHandle _ = False"

text \<open>
  The first \<open>switch (handle)\<close>: the candidate bounds \<open>newX, newY, newWidth, newHeight\<close>
  from the start bounds and the drag delta.
\<close>

fun candidateBounds :: "handle \<Rightarrow> Bounds \<Rightarrow> real \<Rightarrow> real \<Rightarrow> Bounds" where
  "candidateBounds H_nw sb dx dy =
     \<lparr>bnd_x = bnd_x sb + dx, bnd_y = bnd_y sb + dy,
      bnd_width = bnd_width sb - dx, bnd_height = bnd_height sb - dy\<rparr>"
| "candidateBounds H_n sb dx dy =
     \<lparr>bnd_x = bnd_x sb, bnd_y = bnd_y sb + dy,
      bnd_width = bnd_width sb, bnd_height = bnd_height sb - dy\<rparr>"
| "candidateBounds H_ne sb dx dy =
     \<lparr>bnd_x = bnd_x sb, bnd_y = bnd_y sb + dy,
      bnd_width = bnd_width sb + dx, bnd_height = bnd_height sb - dy\<rparr>"
| "candidateBounds H_e sb dx dy =
     \<lparr>bnd_x = bnd_x sb, bnd_y = bnd_y sb,
      bnd_width = bnd_width sb + dx, bnd_height = bnd_height sb\<rparr>"
| "candidateBounds H_se sb dx dy =
     \<lparr>bnd_x = bnd_x sb, bnd_y = bnd_y sb,
      bnd_width = bnd_width sb + dx, bnd_height = bnd_height sb + dy\<rparr>"
| "candidateBounds H_s sb dx dy =
     \<lparr>bnd_x = bnd_x sb, bnd_y = bnd_y sb,
      bnd_width = bnd_width sb, bnd_height = bnd_height sb + dy\<rparr>"
| "candidateBounds H_sw sb dx dy =
     \<lparr>bnd_x = bnd_x sb + dx, bnd_y = bnd_y sb,
      bnd_width = bnd_width sb - dx, bnd_height = bnd_height sb + dy\<rparr>"
| "candidateBounds H_w sb dx dy =
     \<lparr>bnd_x = bnd_x sb + dx, bnd_y = bnd_y sb,
      bnd_width = bnd_width sb - dx, bnd_height = bnd_height sb\<rparr>"

text \<open>
  \<^verbatim>\<open>
  const minSize = 10;
  if (newWidth < minSize) {
    if (handle.includes('w')) newX = startBounds.x + startBounds.width - minSize;
    newWidth = minSize; }
  if (newHeight < minSize) {
    if (handle.includes('n')) newY = startBounds.y + startBounds.height - minSize;
    newHeight = minSize; }
  \<close>
\<close>

definition ensureMinSize :: "handle \<Rightarrow> Bounds \<Rightarrow> Bounds \<Rightarrow> Bounds" where
  "ensureMinSize h sb nb =
     (let minSize = 10;
          nb1 = (if bnd_width nb < minSize
                 then nb\<lparr>bnd_x := (if includes_w h then bnd_x sb + bnd_width sb - minSize
                                     else bnd_x nb),
                         bnd_width := minSize\<rparr>
                 else nb)
      in if bnd_height nb1 < minSize
         then nb1\<lparr>bnd_y := (if includes_n h then bnd_y sb + bnd_height sb - minSize
                              else bnd_y nb1),
                  bnd_height := minSize\<rparr>
         else nb1)"

definition newBounds :: "handle \<Rightarrow> Bounds \<Rightarrow> real \<Rightarrow> real \<Rightarrow> Bounds" where
  "newBounds h sb dx dy = ensureMinSize h sb (candidateBounds h sb dx dy)"

text \<open>
  The image branch under a corner handle: the aspect ratio of the start bounds, the
  dimension that changed more as reference, and the position set again for the
  handles \<open>nw\<close>, \<open>ne\<close> and \<open>sw\<close>. The result is \<open>finalX, finalY, finalWidth,
  finalHeight\<close>.
\<close>

definition imageCornerBounds :: "handle \<Rightarrow> Bounds \<Rightarrow> Bounds \<Rightarrow> Bounds" where
  "imageCornerBounds h sb nb =
     (let aspectRatio = bnd_width sb / bnd_height sb;
          widthChange = \<bar>bnd_width nb - bnd_width sb\<bar>;
          heightChange = \<bar>bnd_height nb - bnd_height sb\<bar>;
          finalHeight = (if widthChange > heightChange then bnd_width nb / aspectRatio
                         else bnd_height nb);
          finalWidth = (if widthChange > heightChange then bnd_width nb
                        else bnd_height nb * aspectRatio);
          finalX = (if h = H_nw \<or> h = H_sw then bnd_x sb + bnd_width sb - finalWidth
                    else bnd_x nb);
          finalY = (if h = H_nw \<or> h = H_ne then bnd_y sb + bnd_height sb - finalHeight
                    else bnd_y nb)
      in \<lparr>bnd_x = finalX, bnd_y = finalY, bnd_width = finalWidth, bnd_height = finalHeight\<rparr>)"

text \<open>
  The second \<open>switch (el.type)\<close>: what each variant does with the new bounds
  \<open>nb\<close> (already floored) and the start bounds \<open>sb\<close>.
\<close>

fun applyResize :: "handle \<Rightarrow> Bounds \<Rightarrow> Bounds \<Rightarrow> element \<Rightarrow> element" where
  "applyResize h sb nb (Rectangle c x y w h0) =
     Rectangle c (bnd_x nb) (bnd_y nb) (bnd_width nb) (bnd_height nb)"
| "applyResize h sb nb (Ellipse c x y w h0) =
     Ellipse c (bnd_x nb) (bnd_y nb) (bnd_width nb) (bnd_height nb)"
| "applyResize h sb nb (Diamond c x y w h0) =
     Diamond c (bnd_x nb) (bnd_y nb) (bnd_width nb) (bnd_height nb)"
| "applyResize h sb nb (Image c x y w h0 src img) =
     (if isCornerHandle h
      then (let f = imageCornerBounds h sb nb
            in Image c (bnd_x f) (bnd_y f) (bnd_width f) (bnd_height f) src img)
      else Image c (bnd_x nb) (bnd_y nb) (bnd_width nb) (bnd_height nb) src img)"
| "applyResize h sb nb (Circle c x y r) =
     (let radius = max (bnd_width nb) (bnd_height nb) / 2
      in Circle c (bnd_x nb + radius) (bnd_y nb + radius) radius)"
| "applyResize h sb nb (Line c sx sy ex ey) =
     (let scaleX = bnd_width nb / bnd_width sb;
          scaleY = bnd_height nb / bnd_height sb
      in Line c (bnd_x nb + (sx - bnd_x sb) * scaleX) (bnd_y nb + (sy - bnd_y sb) * scaleY)
                (bnd_x nb + (ex - bnd_x sb) * scaleX) (bnd_y nb + (ey - bnd_y sb) * scaleY))"
| "applyResize h sb nb (Arrow c sx sy ex ey) =
     (let scaleX = bnd_width nb / bnd_width sb;
          scaleY = bnd_height nb / bnd_height sb
      in Arrow c (bnd_x nb + (sx - bnd_x sb) * scaleX) (bnd_y nb + (sy - bnd_y sb) * scaleY)
                 (bnd_x nb + (ex - bnd_x sb) * scaleX) (bnd_y nb + (ey - bnd_y sb) * scaleY))"
| "applyResize h sb nb (Text c x y t fs ff td) =
     (let scale = bnd_height nb / bnd_height sb
      in Text c (bnd_x nb) (bnd_y nb + bnd_height nb) t (max 8 (fs * scale)) ff td)"
| "applyResize h sb nb (Path c pts) =
     (let scaleX = bnd_width nb / max (bnd_width sb) 1;
          scaleY = bnd_height nb / max (bnd_height sb) 1
      in Path c (map (\<lambda>p. (bnd_x nb + (fst p - bnd_x sb) * scaleX,
                              bnd_y nb + (snd p - bnd_y sb) * scaleY)) pts))"

definition resizeElement :: "handle \<Rightarrow> Bounds \<Rightarrow> real \<Rightarrow> real \<Rightarrow> element \<Rightarrow> element" where
  "resizeElement h sb dx dy el = applyResize h sb (newBounds h sb dx dy) el"

text \<open>
  The resize branch of \<open>handleMouseMove\<close>: the delta from the start point to the
  current canvas point, applied to the element with the recorded identifier; every
  other element is returned as it is.
\<close>

definition handleMouseMove_resize :: "ResizeHandle \<Rightarrow> point \<Rightarrow> element list \<Rightarrow> element list" where
  "handleMouseMove_resize rh canvasPoint prev =
     (let dx = fst canvasPoint - fst (rh_startPoint rh);
          dy = snd canvasPoint - snd (rh_startPoint rh)
      in map (\<lambda>el. if el_id el \<noteq> rh_elementId rh then el
                    else resizeElement (rh_handle rh) (rh_startBounds rh) dx dy el) prev)"

text \<open>
  Pointer-down on a handle records the bounds of the selected element as start bounds
  (\<open>startBounds: bounds\<close> with \<open>bounds = getElementBounds(selectedElement)\<close>).
\<close>

definition startResize :: "metrics option \<Rightarrow> handle \<Rightarrow> point \<Rightarrow> element \<Rightarrow> ResizeHandle option" where
  "startResize ctx h canvasPoint el =
     (case getElementBounds ctx el of
        None \<Rightarrow> None
      | Some b \<Rightarrow> Some \<lparr>rh_handle = h, rh_elementId = el_id el,
                         rh_startBounds = b, rh_startPoint = canvasPoint\<rparr>)"

section \<open>Moving the selection (InfiniteCanvas: handleMouseMove, pan branch)\<close>

datatype Tool = T_select | T_pen | T_rectangle | T_circle | T_ellipse | T_diamond
  | T_line | T_arrow | T_text | T_image | T_eraser | T_hand

text \<open>
  The \<open>switch (el.type)\<close> of the move: every variant is copied with its positional
  fields increased by \<open>dxCanvas, dyCanvas\<close>.
\<close>

fun moveElement :: "real \<Rightarrow> real \<Rightarrow> element \<Rightarrow> element" where
  "moveElement dxCanvas dyCanvas (Rectangle c x y w h) = Rectangle c (x + dxCanvas) (y + dyCanvas) w h"
| "moveElement dxCanvas dyCanvas (Ellipse c x y w h) = Ellipse c (x + dxCanvas) (y + dyCanvas) w h"
| "moveElement dxCanvas dyCanvas (Diamond c x y w h) = Diamond c (x + dxCanvas) (y + dyCanvas) w h"
| "moveElement dxCanvas dyCanvas (Text c x y t fs ff td) = Text c (x + dxCanvas) (y + dyCanvas) t fs ff td"
| "moveElement dxCanvas dyCanvas (Image c x y w h src img) =
     Image c (x + dxCanvas) (y + dyCanvas) w h src img"
| "moveElement dxCanvas dyCanvas (Circle c x y r) = Circle c (x + dxCanvas) (y + dyCanvas) r"
| "moveElement dxCanvas dyCanvas (Line c sx sy ex ey) =
     Line c (sx + dxCanvas) (sy + dyCanvas) (ex + dxCanvas) (ey + dyCanvas)"
| "moveElement dxCanvas dyCanvas (Arrow c sx sy ex ey) =
     Arrow c (sx + dxCanvas) (sy + dyCanvas) (ex + dxCanvas) (ey + dyCanvas)"
| "moveElement dxCanvas dyCanvas (Path c pts) =
     Path c (map (\<lambda>p. (fst p + dxCanvas, snd p + dyCanvas)) pts)"

text \<open>
  \<^verbatim>\<open>
  setElements(prev => prev.map(el => {
    if (selectedElements.has(el.id)) {
      const dxCanvas = dx / viewport.scale;
      const dyCanvas = dy / viewport.scale;
      switch (el.type) { ... }
    }
    return el; }));
  \<close>
\<close>

definition moveSelected ::
  "string set \<Rightarrow> ViewportTransform \<Rightarrow> real \<Rightarrow> real \<Rightarrow> element list \<Rightarrow> element list" where
  "moveSelected selectedElements viewport dx dy prev =
     map (\<lambda>el. if el_id el \<in> selectedElements
                then (let dxCanvas = dx / vp_scale viewport;
                          dyCanvas = dy / vp_scale viewport
                      in moveElement dxCanvas dyCanvas el)
                else el) prev"

text \<open>
  The branch \<open>if (isPanning && lastPanPoint)\<close> on the pair of element collection and
  viewport: with the select tool and a non-empty selection the selection moves,
  otherwise the viewport pans by the screen delta.
\<close>

definition handleMouseMove_pan ::
  "Tool \<Rightarrow> string set \<Rightarrow> real \<Rightarrow> real \<Rightarrow> element list \<times> ViewportTransform
     \<Rightarrow> element list \<times> ViewportTransform" where
  "handleMouseMove_pan tool selectedElements dx dy st =
     (if tool = T_select \<and> selectedElements \<noteq> {}
      then (moveSelected selectedElements (snd st) dx dy (fst st), snd st)
      else (fst st, (snd st)\<lparr>vp_x := vp_x (snd st) + dx, vp_y := vp_y (snd st) + dy\<rparr>))"

section \<open>Marquee selection (InfiniteCanvas: handleMouseUp, selectionBox branch)\<close>

text \<open>
  \<^verbatim>\<open>
  const selected = elements.filter(el => {
    const bounds = getElementBounds(el);
    if (!bounds) return false;
    return (bounds.x >= minX && bounds.x + bounds.width <= maxX &&
            bounds.y >= minY && bounds.y + bounds.height <= maxY);
  }).map(el => el.id);
  setSelectedElements(new Set(selected));
  \<close>
\<close>

definition inSelectionBox :: "metrics option \<Rightarrow> point \<times> point \<Rightarrow> element \<Rightarrow> bool" where
  "inSelectionBox ctx selectionBox el =
     (let minX = min (fst (fst selectionBox)) (fst (snd selectionBox));
          maxX = max (fst (fst selectionBox)) (fst (snd selectionBox));
          minY = min (snd (fst selectionBox)) (snd (snd selectionBox));
          maxY = max (snd (fst selectionBox)) (snd (snd selectionBox))
      in case getElementBounds ctx el of
           None \<Rightarrow> False
         | Some bounds \<Rightarrow>
             bnd_x bounds \<ge> minX \<and> bnd_x bounds + bnd_width bounds \<le> maxX \<and>
             bnd_y bounds \<ge> minY \<and> bnd_y bounds + bnd_height bounds \<le> maxY)"

definition handleMouseUp_selectionBox ::
  "metrics option \<Rightarrow> point \<times> point \<Rightarrow> element list \<Rightarrow> string set" where
  "handleMouseUp_selectionBox ctx selectionBox elements =
     set (map el_id (filter (inSelectionBox ctx selectionBox) elements))"

section \<open>Duplicate and paste (InfiniteCanvas: handleKeyDown)\<close>

text \<open>
  \<^verbatim>\<open>
  el => ({ ...el,
    id: Date.now().toString() + Math.random(),
    x: 'x' in el ? el.x + 20 : undefined,
    y: 'y' in el ? el.y + 20 : undefined,
    startX: 'startX' in el ? el.startX + 20 : undefined,
    startY: 'startY' in el ? el.startY + 20 : undefined,
    endX: 'endX' in el ? el.endX + 20 : undefined,
    endY: 'endY' in el ? el.endY + 20 : undefined })
  \<close>
  The new identifier comes from the clock and the random generator and is a parameter.
  The object is read at the type it is cast to (\<open>as CanvasElementType[]\<close>): the fields
  of the element's variant; a key set to \<open>undefined\<close> is not a field of that variant.
  Everything the spread copies and the literal does not override is unchanged, the
  \<open>points\<close> of a path among it.
\<close>

fun cloneElement :: "string \<Rightarrow> element \<Rightarrow> element" where
  "cloneElement newId (Path c pts) = Path (c\<lparr>ident := newId\<rparr>) pts"
| "cloneElement newId (Rectangle c x y w h) = Rectangle (c\<lparr>ident := newId\<rparr>) (x + 20) (y + 20) w h"
| "cloneElement newId (Circle c x y r) = Circle (c\<lparr>ident := newId\<rparr>) (x + 20) (y + 20) r"
| "cloneElement newId (Ellipse c x y w h) = Ellipse (c\<lparr>ident := newId\<rparr>) (x + 20) (y + 20) w h"
| "cloneElement newId (Diamond c x y w h) = Diamond (c\<lparr>ident := newId\<rparr>) (x + 20) (y + 20) w h"
| "cloneElement newId (Line c sx sy ex ey) =
     Line (c\<lparr>ident := newId\<rparr>) (sx + 20) (sy + 20) (ex + 20) (ey + 20)"
| "cloneElement newId (Arrow c sx sy ex ey) =
     Arrow (c\<lparr>ident := newId\<rparr>) (sx + 20) (sy + 20) (ex + 20) (ey + 20)"
| "cloneElement newId (Text c x y t fs ff td) = Text (c\<lparr>ident := newId\<rparr>) (x + 20) (y + 20) t fs ff td"
| "cloneElement newId (Image c x y w h src img) =
     Image (c\<lparr>ident := newId\<rparr>) (x + 20) (y + 20) w h src img"

text \<open>
  \<open>freshId k\<close> is the identifier generated for the \<open>k\<close>-th element of the \<open>map\<close>.
\<close>

definition cloneAll :: "(nat \<Rightarrow> string) \<Rightarrow> element list \<Rightarrow> element list" where
  "cloneAll freshId els = map (\<lambda>(k, el). cloneElement (freshId k) el) (enumerate 0 els)"

definition duplicate :: "(nat \<Rightarrow> string) \<Rightarrow> string set \<Rightarrow> element list \<Rightarrow> element list" where
  "duplicate freshId selectedElements elements =
     (let selected = filter (\<lambda>el. el_id el \<in> selectedElements) elements;
          duplicated = cloneAll freshId selected
      in elements @ duplicated)"

text \<open>
  Paste reads the clipboard slot (\<open>None\<close>: nothing was copied) and appends the clones
  of the elements parsed from it.
\<close>

definition paste :: "(nat \<Rightarrow> string) \<Rightarrow> element list option \<Rightarrow> element list \<Rightarrow> element list" where
  "paste freshId clipboard elements =
     (case clipboard of
        None \<Rightarrow> elements
      | Some copied \<Rightarrow> elements @ cloneAll freshId copied)"

section \<open>Persisting the history (page.tsx: Home, the effect that saves the history)\<close>

text \<open>
  \<open>localStorage\<close> as explicit state: the stored items, and the fate of each coming
  \<open>setItem\<close> call (\<open>None\<close>: the write succeeds; \<open>Some e\<close>: it throws \<open>e\<close> and stores
  nothing; when the list is used up, writes succeed). A stored string is the value it
  is the JSON text of.
\<close>

datatype StorageValue =
    V_history "element list list"
  | V_index int
  | V_elements "element list"

datatype StorageError = QuotaExceededError | OtherError

record Storage =
  items :: "string \<rightharpoonup> StorageValue"
  fates :: "StorageError option list"

definition setItem :: "string \<Rightarrow> StorageValue \<Rightarrow> Storage \<Rightarrow> StorageError option \<times> Storage" where
  "setItem k v st =
     (case fates st of
        [] \<Rightarrow> (None, st\<lparr>items := (items st)(k \<mapsto> v)\<rparr>)
      | None # fs \<Rightarrow> (None, st\<lparr>items := (items st)(k \<mapsto> v), fates := fs\<rparr>)
      | Some e # fs \<Rightarrow> (Some e, st\<lparr>fates := fs\<rparr>))"

definition removeItem :: "string \<Rightarrow> Storage \<Rightarrow> Storage" where
  "removeItem k st = st\<lparr>items := (items st)(k := None)\<rparr>"

text \<open>\<open>history[historyIndex] || []\<close>: an index outside the array reads \<open>undefined\<close>.\<close>

definition currentElements :: "element list list \<Rightarrow> int \<Rightarrow> element list" where
  "currentElements history historyIndex =
     (if 0 \<le> historyIndex \<and> historyIndex < int (length history)
      then history ! nat historyIndex else [])"

text \<open>
  The inner \<open>try\<close>: write the current snapshot alone with cursor 0; on any error remove
  both keys.
\<close>

definition saveCurrentOnly :: "element list list \<Rightarrow> int \<Rightarrow> Storage \<Rightarrow> Storage" where
  "saveCurrentOnly history historyIndex st =
     (case setItem ''canvasHistory'' (V_history [currentElements history historyIndex]) st of
        (Some e, st1) \<Rightarrow> removeItem ''canvasHistoryIndex'' (removeItem ''canvasHistory'' st1)
      | (None, st1) \<Rightarrow>
          (case setItem ''canvasHistoryIndex'' (V_index 0) st1 of
             (Some e, st2) \<Rightarrow> removeItem ''canvasHistoryIndex'' (removeItem ''canvasHistory'' st2)
           | (None, st2) \<Rightarrow> st2))"

text \<open>The \<open>catch\<close> of the outer \<open>try\<close>: only a quota error starts the fallback.\<close>

definition onSaveError :: "StorageError \<Rightarrow> element list list \<Rightarrow> int \<Rightarrow> Storage \<Rightarrow> Storage" where
  "onSaveError e history historyIndex st =
     (if e = QuotaExceededError then saveCurrentOnly history historyIndex st else st)"

text \<open>
  \<^verbatim>\<open>
  const limitedHistory = history.slice(-50);
  const adjustedIndex = Math.min(historyIndex, limitedHistory.length - 1);
  localStorage.setItem('canvasHistory', JSON.stringify(limitedHistory));
  localStorage.setItem('canvasHistoryIndex', JSON.stringify(adjustedIndex));
  \<close>
\<close>

definition saveHistory :: "element list list \<Rightarrow> int \<Rightarrow> Storage \<Rightarrow> Storage" where
  "saveHistory history historyIndex st =
     (let limitedHistory = drop (length history - 50) history;
          adjustedIndex = min historyIndex (int (length limitedHistory) - 1)
      in case setItem ''canvasHistory'' (V_history limitedHistory) st of
           (Some e, st1) \<Rightarrow> onSaveError e history historyIndex st1
         | (None, st1) \<Rightarrow>
             (case setItem ''canvasHistoryIndex'' (V_index adjustedIndex) st1 of
                (Some e, st2) \<Rightarrow> onSaveError e history historyIndex st2
              | (None, st2) \<Rightarrow> st2))"

section \<open>Which variants take over the new bounds\<close>

text \<open>
  A predicate for stating the size floor: the variants whose resized geometry is
  written from the new bounds alone, whatever the element was before. Rectangle,
  ellipse and diamond store the new bounds; a circle takes the larger side as
  diameter; an image stores them under an edge handle. Line, arrow and path are
  scaled from their present points, a text is scaled by font size, and an image under
  a corner handle gets one side from the aspect ratio: they are not among them.
\<close>

fun takesNewBounds :: "handle \<Rightarrow> element \<Rightarrow> bool" where
  "takesNewBounds h (Rectangle c x y w h0) = True"
| "takesNewBounds h (Ellipse c x y w h0) = True"
| "takesNewBounds h (Diamond c x y w h0) = True"
| "takesNewBounds h (Circle c x y r) = True"
| "takesNewBounds h (Image c x y w h0 src img) = (\<not> isCornerHandle h)"
| "takesNewBounds h (Line c sx sy ex ey) = False"
| "takesNewBounds h (Arrow c sx sy ex ey) = False"
| "takesNewBounds h (Path c pts) = False"
| "takesNewBounds h (Text c x y t fs ff td) = False"

text \<open>Attributes of a sample element for the concrete evaluations.\<close>

definition sampleAttrs :: "string \<Rightarrow> CanvasElement" where
  "sampleAttrs i = \<lparr>ident = i, color = ''#1e1e1e'', strokeWidth = 2, fill = None,
     opacity = Some 1, roughness = Some 1, strokeStyle = Some Solid, seed = Some 7,
     selected = None, rotation = None\<rparr>"

section \<open>Position and the rest of an element\<close>

text \<open>
  Two projections for stating what a move changes. \<open>positions\<close> lists the positional
  fields of an element as points: the points of a path, the two end points of a line
  or arrow, the origin of a shape, text or image, the centre of a circle.
  \<open>unplaced\<close> is the element with these fields set to zero: its variant and every
  other field (the common attributes, width, height, radius, text, font, source).
\<close>

fun positions :: "element \<Rightarrow> point list" where
  "positions (Path c pts) = pts"
| "positions (Rectangle c x y w h) = [(x, y)]"
| "positions (Circle c x y r) = [(x, y)]"
| "positions (Ellipse c x y w h) = [(x, y)]"
| "positions (Diamond c x y w h) = [(x, y)]"
| "positions (Line c sx sy ex ey) = [(sx, sy), (ex, ey)]"
| "positions (Arrow c sx sy ex ey) = [(sx, sy), (ex, ey)]"
| "positions (Text c x y t fs ff td) = [(x, y)]"
| "positions (Image c x y w h src img) = [(x, y)]"

fun unplaced :: "element \<Rightarrow> element" where
  "unplaced (Path c pts) = Path c (map (\<lambda>p. (0, 0)) pts)"
| "unplaced (Rectangle c x y w h) = Rectangle c 0 0 w h"
| "unplaced (Circle c x y r) = Circle c 0 0 r"
| "unplaced (Ellipse c x y w h) = Ellipse c 0 0 w h"
| "unplaced (Diamond c x y w h) = Diamond c 0 0 w h"
| "unplaced (Line c sx sy ex ey) = Line c 0 0 0 0"
| "unplaced (Arrow c sx sy ex ey) = Arrow c 0 0 0 0"
| "unplaced (Text c x y t fs ff td) = Text c 0 0 t fs ff td"
| "unplaced (Image c x y w h src img) = Image c 0 0 w h src img"

section \<open>Outcomes of the storage writes\<close>

text \<open>
  Two ways of reading the list of fates. \<open>writesSucceed n fs\<close>: the next \<open>n\<close> writes
  succeed. \<open>quotaFailure fs\<close>: the first or the second of the next two writes throws
  the quota error (the first having succeeded in the latter case); the result is the
  fates of the writes after it.
\<close>

definition writesSucceed :: "nat \<Rightarrow> StorageError option list \<Rightarrow> bool" where
  "writesSucceed n fs = (\<forall>f \<in> set (take n fs). f = None)"

fun quotaFailure :: "StorageError option list \<Rightarrow> StorageError option list option" where
  "quotaFailure (Some QuotaExceededError # fs) = Some fs"
| "quotaFailure (None # Some QuotaExceededError # fs) = Some fs"
| "quotaFailure _ = None"

text \<open>A storage holding an element collection, with the given fates.\<close>

definition sampleStorage :: "StorageError option list \<Rightarrow> Storage" where
  "sampleStorage fs = \<lparr>items = [''canvasElements'' \<mapsto> V_elements [Circle (sampleAttrs ''c'') 0 0 5]],
     fates = fs\<rparr>"

section \<open>Viewport theorems\<close>

lemma handleWheel_scale_pos: "0 < vp_scale (handleWheel deltaY mouseX mouseY viewport prev)"
  by (simp add: handleWheel_def Let_def max_def min_def)

text \<open>
  C1. For a viewport whose scale lies in [0.1, 10] and any cursor point, one wheel step
  multiplies the scale by 1.1 (deltaY negative) or 0.9 (otherwise), clamps it to
  [0.1, 10], sets the pan offset to \<open>x' = cursorX - (cursorX - x) * scale' / scale\<close>
  (and likewise for y), and the world point that was under the cursor is projected to
  the same screen point afterwards.
\<close>

theorem handleWheel_zoom_about_cursor:
  assumes "1 / 10 \<le> vp_scale v" and "vp_scale v \<le> 10"
  shows "(let v' = handleWheel deltaY cx cy v v in
      vp_scale v' = max (1 / 10) (min 10 (vp_scale v * (if deltaY < 0 then 11 / 10 else 9 / 10)))
    \<and> 1 / 10 \<le> vp_scale v' \<and> vp_scale v' \<le> 10
    \<and> vp_x v' = cx - (cx - vp_x v) * vp_scale v' / vp_scale v
    \<and> vp_y v' = cy - (cy - vp_y v) * vp_scale v' / vp_scale v
    \<and> worldToScreen_spec v' (screenToCanvas v cx cy) = (cx, cy)
    \<and> screenToCanvas v' cx cy = screenToCanvas v cx cy)"
proof -
  define v' where "v' = handleWheel deltaY cx cy v v"
  have s: "vp_scale v \<noteq> 0" using assms(1) by auto
  have s': "vp_scale v' \<noteq> 0"
    using handleWheel_scale_pos [of deltaY cx cy v v] by (simp add: v'_def)
  have sc: "vp_scale v' = max (1 / 10) (min 10 (vp_scale v * (if deltaY < 0 then 11 / 10 else 9 / 10)))"
    by (simp add: v'_def handleWheel_def Let_def)
  have rg: "1 / 10 \<le> vp_scale v' \<and> vp_scale v' \<le> 10"
    by (simp add: v'_def handleWheel_def Let_def max_def min_def)
  have x: "vp_x v' = cx - (cx - vp_x v) * vp_scale v' / vp_scale v"
    by (simp add: v'_def handleWheel_def Let_def)
  have y: "vp_y v' = cy - (cy - vp_y v) * vp_scale v' / vp_scale v"
    by (simp add: v'_def handleWheel_def Let_def)
  have p: "worldToScreen_spec v' (screenToCanvas v cx cy) = (cx, cy)"
    using s by (simp add: worldToScreen_spec_def screenToCanvas_def x y)
  have q: "screenToCanvas v' cx cy = screenToCanvas v cx cy"
    using s s' by (simp add: screenToCanvas_def x y)
  from sc rg x y p q show ?thesis
    unfolding Let_def v'_def by blast
qed

theorem handleWheel_zoom_about_cursor_witness:
  "handleWheel (-1) 400 300 \<lparr>vp_x = 0, vp_y = 0, vp_scale = 1\<rparr> \<lparr>vp_x = 0, vp_y = 0, vp_scale = 1\<rparr>
     = \<lparr>vp_x = -40, vp_y = -30, vp_scale = 11 / 10\<rparr>
   \<and> worldToScreen_spec \<lparr>vp_x = -40, vp_y = -30, vp_scale = 11 / 10\<rparr>
        (screenToCanvas \<lparr>vp_x = 0, vp_y = 0, vp_scale = 1\<rparr> 400 300) = (400, 300)"
proof -
  let ?v = "\<lparr>vp_x = 0, vp_y = 0, vp_scale = 1\<rparr>"
  have e: "handleWheel (-1) 400 300 ?v ?v = \<lparr>vp_x = -40, vp_y = -30, vp_scale = 11 / 10\<rparr>"
    by (simp add: handleWheel_def Let_def)
  have "worldToScreen_spec (handleWheel (-1) 400 300 ?v ?v) (screenToCanvas ?v 400 300) = (400, 300)"
    using handleWheel_zoom_about_cursor [of ?v "-1" 400 300] by (simp add: Let_def)
  with e show ?thesis by simp
qed

text \<open>
  C8. For every point and every viewport with nonzero scale, mapping the point to the
  screen and back with \<open>screenToCanvas\<close> returns the point.
\<close>

theorem screenToCanvas_worldToScreen:
  assumes "vp_scale v \<noteq> 0"
  shows "screenToCanvas v (fst (worldToScreen_spec v p)) (snd (worldToScreen_spec v p)) = p"
  using assms by (simp add: screenToCanvas_def worldToScreen_spec_def)

theorem screenToCanvas_worldToScreen_witness:
  "vp_scale \<lparr>vp_x = 30, vp_y = -12, vp_scale = 5 / 2\<rparr> \<noteq> 0
   \<and> worldToScreen_spec \<lparr>vp_x = 30, vp_y = -12, vp_scale = 5 / 2\<rparr> (4, 6) = (40, 3)
   \<and> screenToCanvas \<lparr>vp_x = 30, vp_y = -12, vp_scale = 5 / 2\<rparr> 40 3 = (4, 6)"
proof -
  let ?v = "\<lparr>vp_x = 30, vp_y = -12, vp_scale = 5 / 2\<rparr>"
  have h: "vp_scale ?v \<noteq> 0" by simp
  have w: "worldToScreen_spec ?v (4, 6) = (40, 3)" by (simp add: worldToScreen_spec_def)
  from screenToCanvas_worldToScreen [OF h, of "(4, 6)"] w h show ?thesis by simp
qed

section \<open>Resize theorems\<close>

lemma newBounds_floor:
  "10 \<le> bnd_width (newBounds h sb dx dy) \<and> 10 \<le> bnd_height (newBounds h sb dx dy)"
  by (simp add: newBounds_def ensureMinSize_def Let_def)

lemma newBounds_clamped:
  "(bnd_width (candidateBounds h sb dx dy) < 10 \<longrightarrow> bnd_width (newBounds h sb dx dy) = 10)
   \<and> (bnd_height (candidateBounds h sb dx dy) < 10 \<longrightarrow> bnd_height (newBounds h sb dx dy) = 10)"
  by (simp add: newBounds_def ensureMinSize_def Let_def)

lemma newBounds_anchor_x:
  "(if includes_w h
    then bnd_x (newBounds h sb dx dy) + bnd_width (newBounds h sb dx dy) = bnd_x sb + bnd_width sb
    else bnd_x (newBounds h sb dx dy) = bnd_x sb)"
  by (cases h) (simp_all add: newBounds_def ensureMinSize_def Let_def)

lemma newBounds_anchor_y:
  "(if includes_n h
    then bnd_y (newBounds h sb dx dy) + bnd_height (newBounds h sb dx dy) = bnd_y sb + bnd_height sb
    else bnd_y (newBounds h sb dx dy) = bnd_y sb)"
  by (cases h) (simp_all add: newBounds_def ensureMinSize_def Let_def)

lemma newBounds_unclamped:
  "10 \<le> bnd_width (candidateBounds h sb dx dy) \<Longrightarrow> 10 \<le> bnd_height (candidateBounds h sb dx dy)
   \<Longrightarrow> newBounds h sb dx dy = candidateBounds h sb dx dy"
  by (simp add: newBounds_def ensureMinSize_def Let_def)

text \<open>
  C2 (as amended). For every handle, all start bounds and every drag delta the new
  bounds are at least 10 wide and 10 high; a candidate dimension below 10 becomes
  exactly 10; and the side opposite to the dragged one stays where it was (the right or
  bottom edge for a handle that moves the left or top edge, the left or top edge
  otherwise). A rectangle, ellipse, diamond or circle, and an image under an edge
  handle, has after the resize bounds of width and height at least 10, at every move
  of the drag.
\<close>

theorem resize_minimum_size:
  "10 \<le> bnd_width (newBounds h sb dx dy) \<and> 10 \<le> bnd_height (newBounds h sb dx dy)
   \<and> (bnd_width (candidateBounds h sb dx dy) < 10 \<longrightarrow> bnd_width (newBounds h sb dx dy) = 10)
   \<and> (bnd_height (candidateBounds h sb dx dy) < 10 \<longrightarrow> bnd_height (newBounds h sb dx dy) = 10)
   \<and> (if includes_w h
       then bnd_x (newBounds h sb dx dy) + bnd_width (newBounds h sb dx dy) = bnd_x sb + bnd_width sb
       else bnd_x (newBounds h sb dx dy) = bnd_x sb)
   \<and> (if includes_n h
       then bnd_y (newBounds h sb dx dy) + bnd_height (newBounds h sb dx dy) = bnd_y sb + bnd_height sb
       else bnd_y (newBounds h sb dx dy) = bnd_y sb)
   \<and> (takesNewBounds h el \<longrightarrow>
        (\<exists>b. getElementBounds ctx (resizeElement h sb dx dy el) = Some b
             \<and> bnd_x b = bnd_x (newBounds h sb dx dy) \<and> bnd_y b = bnd_y (newBounds h sb dx dy)
             \<and> 10 \<le> bnd_width b \<and> 10 \<le> bnd_height b))"
proof -
  define nb where "nb = newBounds h sb dx dy"
  have fl: "10 \<le> bnd_width nb \<and> 10 \<le> bnd_height nb"
    unfolding nb_def by (rule newBounds_floor)
  have last: "\<exists>b. getElementBounds ctx (resizeElement h sb dx dy el) = Some b
             \<and> bnd_x b = bnd_x nb \<and> bnd_y b = bnd_y nb
             \<and> 10 \<le> bnd_width b \<and> 10 \<le> bnd_height b" if t: "takesNewBounds h el"
  proof (cases el)
    case (Circle c x y r)
    with fl show ?thesis by (simp add: resizeElement_def nb_def [symmetric] Let_def max_def)
  qed (use t fl in \<open>simp_all add: resizeElement_def nb_def [symmetric]\<close>)
  from last newBounds_floor [of h sb dx dy] newBounds_clamped [of h sb dx dy]
    newBounds_anchor_x [of h sb dx dy] newBounds_anchor_y [of h sb dx dy]
  show ?thesis unfolding nb_def by (simp only: simp_thms) blast
qed

theorem resize_minimum_size_witness:
  "newBounds H_w \<lparr>bnd_x = 0, bnd_y = 0, bnd_width = 100, bnd_height = 50\<rparr> 95 0
     = \<lparr>bnd_x = 90, bnd_y = 0, bnd_width = 10, bnd_height = 50\<rparr>
   \<and> takesNewBounds H_w (Ellipse (sampleAttrs ''r'') 40 0 60 50)
   \<and> (\<exists>b. getElementBounds None
            (resizeElement H_w \<lparr>bnd_x = 0, bnd_y = 0, bnd_width = 100, bnd_height = 50\<rparr> 95 0
               (Ellipse (sampleAttrs ''r'') 40 0 60 50)) = Some b
          \<and> bnd_x b = 90 \<and> bnd_y b = 0 \<and> 10 \<le> bnd_width b \<and> 10 \<le> bnd_height b)"
proof -
  let ?sb = "\<lparr>bnd_x = 0, bnd_y = 0, bnd_width = 100, bnd_height = 50\<rparr>"
  have n: "newBounds H_w ?sb 95 0 = \<lparr>bnd_x = 90, bnd_y = 0, bnd_width = 10, bnd_height = 50\<rparr>"
    by (simp add: newBounds_def ensureMinSize_def Let_def)
  have t: "takesNewBounds H_w (Ellipse (sampleAttrs ''r'') 40 0 60 50)" by simp
  from resize_minimum_size [of H_w ?sb 95 0 "Ellipse (sampleAttrs ''r'') 40 0 60 50" None] n t
  show ?thesis by simp
qed

text \<open>
  The floor does not hold for every variant: a vertical pen stroke has bounds of width
  0, its points are scaled about that width (the divisor is \<open>Math.max(0, 1)\<close>), and
  the resized stroke is still 0 wide, from the first move of the drag on.
\<close>

theorem resize_flat_path_counterexample:
  "startResize None H_se (0, 100) (Path (sampleAttrs ''p'') [(0, 0), (0, 100)])
     = Some \<lparr>rh_handle = H_se, rh_elementId = ''p'',
             rh_startBounds = \<lparr>bnd_x = 0, bnd_y = 0, bnd_width = 0, bnd_height = 100\<rparr>,
             rh_startPoint = (0, 100)\<rparr>
   \<and> handleMouseMove_resize
        \<lparr>rh_handle = H_se, rh_elementId = ''p'',
         rh_startBounds = \<lparr>bnd_x = 0, bnd_y = 0, bnd_width = 0, bnd_height = 100\<rparr>,
         rh_startPoint = (0, 100)\<rparr> (5, 105) [Path (sampleAttrs ''p'') [(0, 0), (0, 100)]]
     = [Path (sampleAttrs ''p'') [(0, 0), (0, 105)]]
   \<and> getElementBounds None (Path (sampleAttrs ''p'') [(0, 0), (0, 105)])
     = Some \<lparr>bnd_x = 0, bnd_y = 0, bnd_width = 0, bnd_height = 105\<rparr>
   \<and> \<not> (10 \<le> bnd_width \<lparr>bnd_x = 0, bnd_y = 0, bnd_width = 0, bnd_height = 105\<rparr>)"
  by (simp add: startResize_def handleMouseMove_resize_def el_id_def sampleAttrs_def
      resizeElement_def newBounds_def ensureMinSize_def Let_def)

text \<open>
  C3. For an image with nonzero width and height, a resize by a corner handle gives an
  image whose width/height ratio is the ratio before the resize: the dimension whose
  floored candidate differs more from the start value is kept and the other one is
  derived from the ratio, and the position is set again for the handles nw, ne, sw so
  that the opposite corner stays. An image of 200 by 100 dragged by (+10, +100) at
  the se handle becomes 400 by 200. Under an edge handle the image takes the new
  bounds as they are.
\<close>

theorem image_corner_resize_keeps_aspect:
  "(let sb = \<lparr>bnd_x = x, bnd_y = y, bnd_width = w, bnd_height = h0\<rparr>;
        nb = newBounds h sb dx dy
    in (isCornerHandle h \<and> w \<noteq> 0 \<and> h0 \<noteq> 0 \<longrightarrow>
          (\<exists>x' y' w' h'.
              resizeElement h sb dx dy (Image c x y w h0 src img) = Image c x' y' w' h' src img
            \<and> w' / h' = w / h0
            \<and> (if \<bar>bnd_width nb - w\<bar> > \<bar>bnd_height nb - h0\<bar>
               then w' = bnd_width nb \<and> h' = bnd_width nb / (w / h0)
               else h' = bnd_height nb \<and> w' = bnd_height nb * (w / h0))
            \<and> (if h = H_nw \<or> h = H_sw then x' = x + w - w' else x' = x)
            \<and> (if h = H_nw \<or> h = H_ne then y' = y + h0 - h' else y' = y)))
     \<and> (\<not> isCornerHandle h \<longrightarrow>
          resizeElement h sb dx dy (Image c x y w h0 src img)
            = Image c (bnd_x nb) (bnd_y nb) (bnd_width nb) (bnd_height nb) src img))
   \<and> getElementBounds ctx (Image c x y 200 100 src img)
        = Some \<lparr>bnd_x = x, bnd_y = y, bnd_width = 200, bnd_height = 100\<rparr>
   \<and> resizeElement H_se \<lparr>bnd_x = x, bnd_y = y, bnd_width = 200, bnd_height = 100\<rparr> 10 100
        (Image c x y 200 100 src img) = Image c x y 400 200 src img"
proof -
  define sb where "sb = \<lparr>bnd_x = x, bnd_y = y, bnd_width = w, bnd_height = h0\<rparr>"
  define nb where "nb = newBounds h sb dx dy"
  have sbs: "bnd_x sb = x" "bnd_y sb = y" "bnd_width sb = w" "bnd_height sb = h0"
    by (simp_all add: sb_def)
  have fl: "10 \<le> bnd_width nb" "10 \<le> bnd_height nb"
    using newBounds_floor [of h sb dx dy] by (simp_all add: nb_def)
  have ax: "\<not> includes_w h \<Longrightarrow> bnd_x nb = x"
    using newBounds_anchor_x [of h sb dx dy] by (simp add: nb_def sbs)
  have ay: "\<not> includes_n h \<Longrightarrow> bnd_y nb = y"
    using newBounds_anchor_y [of h sb dx dy] by (simp add: nb_def sbs)
  have corner: "\<exists>x' y' w' h'.
              resizeElement h sb dx dy (Image c x y w h0 src img) = Image c x' y' w' h' src img
            \<and> w' / h' = w / h0
            \<and> (if \<bar>bnd_width nb - w\<bar> > \<bar>bnd_height nb - h0\<bar>
               then w' = bnd_width nb \<and> h' = bnd_width nb / (w / h0)
               else h' = bnd_height nb \<and> w' = bnd_height nb * (w / h0))
            \<and> (if h = H_nw \<or> h = H_sw then x' = x + w - w' else x' = x)
            \<and> (if h = H_nw \<or> h = H_ne then y' = y + h0 - h' else y' = y)"
    if k: "isCornerHandle h" and w0: "w \<noteq> 0" and h00: "h0 \<noteq> 0"
  proof -
    let ?f = "imageCornerBounds h sb nb"
    have r: "resizeElement h sb dx dy (Image c x y w h0 src img)
        = Image c (bnd_x ?f) (bnd_y ?f) (bnd_width ?f) (bnd_height ?f) src img"
      using k by (simp add: resizeElement_def nb_def Let_def)
    have nz: "bnd_width nb \<noteq> 0" "bnd_height nb \<noteq> 0" using fl by auto
    have ratio: "bnd_width ?f / bnd_height ?f = w / h0"
      using w0 h00 nz by (simp add: imageCornerBounds_def Let_def sbs)
    have drive: "(if \<bar>bnd_width nb - w\<bar> > \<bar>bnd_height nb - h0\<bar>
               then bnd_width ?f = bnd_width nb \<and> bnd_height ?f = bnd_width nb / (w / h0)
               else bnd_height ?f = bnd_height nb \<and> bnd_width ?f = bnd_height nb * (w / h0))"
      by (simp add: imageCornerBounds_def Let_def sbs)
    have px: "(if h = H_nw \<or> h = H_sw then bnd_x ?f = x + w - bnd_width ?f else bnd_x ?f = x)"
      using k ax by (cases h) (simp_all add: imageCornerBounds_def Let_def sbs)
    have py: "(if h = H_nw \<or> h = H_ne then bnd_y ?f = y + h0 - bnd_height ?f else bnd_y ?f = y)"
      using k ay by (cases h) (simp_all add: imageCornerBounds_def Let_def sbs)
    from r ratio drive px py show ?thesis by blast
  qed
  have edge: "resizeElement h sb dx dy (Image c x y w h0 src img)
            = Image c (bnd_x nb) (bnd_y nb) (bnd_width nb) (bnd_height nb) src img"
    if "\<not> isCornerHandle h"
    using that by (simp add: resizeElement_def nb_def)
  have b: "getElementBounds ctx (Image c x y 200 100 src img)
        = Some \<lparr>bnd_x = x, bnd_y = y, bnd_width = 200, bnd_height = 100\<rparr>"
    by simp
  have ex: "resizeElement H_se \<lparr>bnd_x = x, bnd_y = y, bnd_width = 200, bnd_height = 100\<rparr> 10 100
        (Image c x y 200 100 src img) = Image c x y 400 200 src img"
    by (simp add: resizeElement_def newBounds_def ensureMinSize_def imageCornerBounds_def Let_def)
  from corner edge b ex show ?thesis
    unfolding Let_def sb_def [symmetric] nb_def [symmetric] by blast
qed

theorem image_corner_resize_keeps_aspect_witness:
  "resizeElement H_nw \<lparr>bnd_x = 0, bnd_y = 0, bnd_width = 200, bnd_height = 100\<rparr> (-100) (-10)
      (Image (sampleAttrs ''i'') 0 0 200 100 ''data:'' None)
     = Image (sampleAttrs ''i'') (-100) (-50) 300 150 ''data:'' None
   \<and> (300::real) / 150 = 200 / 100
   \<and> resizeElement H_e \<lparr>bnd_x = 0, bnd_y = 0, bnd_width = 200, bnd_height = 100\<rparr> 50 0
      (Image (sampleAttrs ''i'') 0 0 200 100 ''data:'' None)
     = Image (sampleAttrs ''i'') 0 0 250 100 ''data:'' None"
proof -
  have n: "newBounds H_nw \<lparr>bnd_x = 0, bnd_y = 0, bnd_width = 200, bnd_height = 100\<rparr> (-100) (-10)
     = \<lparr>bnd_x = -100, bnd_y = -10, bnd_width = 300, bnd_height = 110\<rparr>"
    by (simp add: newBounds_def ensureMinSize_def Let_def)
  have a: "resizeElement H_nw \<lparr>bnd_x = 0, bnd_y = 0, bnd_width = 200, bnd_height = 100\<rparr> (-100) (-10)
      (Image (sampleAttrs ''i'') 0 0 200 100 ''data:'' None)
     = Image (sampleAttrs ''i'') (-100) (-50) 300 150 ''data:'' None"
    using image_corner_resize_keeps_aspect [of 0 0 200 100 H_nw "-100" "-10" "sampleAttrs ''i''" "''data:''" None]
    by (simp add: Let_def n)
  have m: "newBounds H_e \<lparr>bnd_x = 0, bnd_y = 0, bnd_width = 200, bnd_height = 100\<rparr> 50 0
     = \<lparr>bnd_x = 0, bnd_y = 0, bnd_width = 250, bnd_height = 100\<rparr>"
    by (simp add: newBounds_def ensureMinSize_def Let_def)
  have b: "resizeElement H_e \<lparr>bnd_x = 0, bnd_y = 0, bnd_width = 200, bnd_height = 100\<rparr> 50 0
      (Image (sampleAttrs ''i'') 0 0 200 100 ''data:'' None)
     = Image (sampleAttrs ''i'') 0 0 250 100 ''data:'' None"
    using image_corner_resize_keeps_aspect [of 0 0 200 100 H_e 50 0 "sampleAttrs ''i''" "''data:''" None]
    by (simp add: Let_def m)
  from a b show ?thesis by simp
qed

text \<open>
  C5. For a corner handle the candidate width and height are the start width and
  height changed by the drag delta, and the opposite corner stays; for an edge handle
  only the dimension across that edge changes. A rectangle takes these bounds when they
  are not below the floor. The rectangle at (0, 0) of 100 by 50, dragged at its se
  handle by (+20, +20), becomes 120 by 70 at (0, 0).
\<close>

theorem resize_handle_geometry:
  "(let nb = candidateBounds h sb dx dy
    in (isCornerHandle h \<longrightarrow>
          bnd_width nb = bnd_width sb + (if includes_w h then - dx else dx)
        \<and> bnd_height nb = bnd_height sb + (if includes_n h then - dy else dy))
     \<and> (h = H_n \<or> h = H_s \<longrightarrow>
          bnd_height nb = bnd_height sb + (if h = H_n then - dy else dy)
        \<and> bnd_width nb = bnd_width sb \<and> bnd_x nb = bnd_x sb)
     \<and> (h = H_e \<or> h = H_w \<longrightarrow>
          bnd_width nb = bnd_width sb + (if h = H_w then - dx else dx)
        \<and> bnd_height nb = bnd_height sb \<and> bnd_y nb = bnd_y sb)
     \<and> (if includes_w h then bnd_x nb + bnd_width nb = bnd_x sb + bnd_width sb
         else bnd_x nb = bnd_x sb)
     \<and> (if includes_n h then bnd_y nb + bnd_height nb = bnd_y sb + bnd_height sb
         else bnd_y nb = bnd_y sb)
     \<and> (10 \<le> bnd_width nb \<and> 10 \<le> bnd_height nb \<longrightarrow>
          resizeElement h sb dx dy (Rectangle c x y w h0)
            = Rectangle c (bnd_x nb) (bnd_y nb) (bnd_width nb) (bnd_height nb)))
   \<and> (case startResize ctx H_se p (Rectangle c 0 0 100 50) of
         None \<Rightarrow> False
       | Some rh \<Rightarrow>
           handleMouseMove_resize rh (fst p + 20, snd p + 20) [Rectangle c 0 0 100 50]
             = [Rectangle c 0 0 120 70])"
proof -
  define nb where "nb = candidateBounds h sb dx dy"
  have c: "isCornerHandle h \<longrightarrow>
          bnd_width nb = bnd_width sb + (if includes_w h then - dx else dx)
        \<and> bnd_height nb = bnd_height sb + (if includes_n h then - dy else dy)"
    by (cases h) (simp_all add: nb_def)
  have v: "h = H_n \<or> h = H_s \<longrightarrow>
          bnd_height nb = bnd_height sb + (if h = H_n then - dy else dy)
        \<and> bnd_width nb = bnd_width sb \<and> bnd_x nb = bnd_x sb"
    by (cases h) (simp_all add: nb_def)
  have e: "h = H_e \<or> h = H_w \<longrightarrow>
          bnd_width nb = bnd_width sb + (if h = H_w then - dx else dx)
        \<and> bnd_height nb = bnd_height sb \<and> bnd_y nb = bnd_y sb"
    by (cases h) (simp_all add: nb_def)
  have ax: "(if includes_w h then bnd_x nb + bnd_width nb = bnd_x sb + bnd_width sb
         else bnd_x nb = bnd_x sb)"
    by (cases h) (simp_all add: nb_def)
  have ay: "(if includes_n h then bnd_y nb + bnd_height nb = bnd_y sb + bnd_height sb
         else bnd_y nb = bnd_y sb)"
    by (cases h) (simp_all add: nb_def)
  have r: "10 \<le> bnd_width nb \<and> 10 \<le> bnd_height nb \<longrightarrow>
          resizeElement h sb dx dy (Rectangle c x y w h0)
            = Rectangle c (bnd_x nb) (bnd_y nb) (bnd_width nb) (bnd_height nb)"
    using newBounds_unclamped [of h sb dx dy] by (simp add: resizeElement_def nb_def)
  have s: "(case startResize ctx H_se p (Rectangle c 0 0 100 50) of
         None \<Rightarrow> False
       | Some rh \<Rightarrow>
           handleMouseMove_resize rh (fst p + 20, snd p + 20) [Rectangle c 0 0 100 50]
             = [Rectangle c 0 0 120 70])"
    by (simp add: startResize_def handleMouseMove_resize_def el_id_def resizeElement_def
        newBounds_def ensureMinSize_def Let_def)
  from c v e ax ay r s show ?thesis
    unfolding Let_def nb_def [symmetric] by blast
qed

theorem resize_handle_geometry_witness:
  "resizeElement H_nw \<lparr>bnd_x = 0, bnd_y = 0, bnd_width = 100, bnd_height = 50\<rparr> 20 (-20)
      (Rectangle (sampleAttrs ''r'') 0 0 100 50) = Rectangle (sampleAttrs ''r'') 20 (-20) 80 70
   \<and> candidateBounds H_n \<lparr>bnd_x = 0, bnd_y = 0, bnd_width = 100, bnd_height = 50\<rparr> 20 (-20)
      = \<lparr>bnd_x = 0, bnd_y = -20, bnd_width = 100, bnd_height = 70\<rparr>
   \<and> candidateBounds H_e \<lparr>bnd_x = 0, bnd_y = 0, bnd_width = 100, bnd_height = 50\<rparr> 20 (-20)
      = \<lparr>bnd_x = 0, bnd_y = 0, bnd_width = 120, bnd_height = 50\<rparr>"
proof -
  let ?sb = "\<lparr>bnd_x = 0, bnd_y = 0, bnd_width = 100, bnd_height = 50\<rparr>"
  have a: "resizeElement H_nw ?sb 20 (-20) (Rectangle (sampleAttrs ''r'') 0 0 100 50)
      = Rectangle (sampleAttrs ''r'') 20 (-20) 80 70"
    using resize_handle_geometry [of H_nw ?sb 20 "-20" "sampleAttrs ''r''" 0 0 100 50]
    by (simp add: Let_def)
  have b: "bnd_height (candidateBounds H_n ?sb 20 (-20)) = 70
      \<and> bnd_width (candidateBounds H_n ?sb 20 (-20)) = 100 \<and> bnd_x (candidateBounds H_n ?sb 20 (-20)) = 0"
    using resize_handle_geometry [of H_n ?sb 20 "-20"] by (simp add: Let_def)
  have c: "bnd_width (candidateBounds H_e ?sb 20 (-20)) = 120
      \<and> bnd_height (candidateBounds H_e ?sb 20 (-20)) = 50 \<and> bnd_y (candidateBounds H_e ?sb 20 (-20)) = 0"
    using resize_handle_geometry [of H_e ?sb 20 "-20"] by (simp add: Let_def)
  from a b c show ?thesis by simp
qed

section \<open>Move theorems\<close>

lemma moveElement_id: "el_id (moveElement a b el) = el_id el"
  by (cases el) (simp_all add: el_id_def)

lemma moveElement_unplaced: "unplaced (moveElement a b el) = unplaced el"
  by (cases el) simp_all

lemma moveElement_positions:
  "positions (moveElement a b el) = map (\<lambda>p. (fst p + a, snd p + b)) (positions el)"
  by (cases el) simp_all

text \<open>
  C10. A drag with the select tool and a non-empty selection leaves the viewport as it
  is and returns a collection of the same length with the same identifiers in the same
  order. A selected element keeps its variant and every field that is not positional,
  and its positional fields are translated by the delta (the screen delta divided by
  the scale); an element that is not selected is returned unchanged.
\<close>

theorem move_selection_frame:
  assumes "selectedElements \<noteq> {}" and "vp_scale viewport \<noteq> 0"
  shows "(let st' = handleMouseMove_pan T_select selectedElements dx dy (elements, viewport);
              elements' = fst st';
              dxCanvas = dx / vp_scale viewport;
              dyCanvas = dy / vp_scale viewport
          in snd st' = viewport
           \<and> length elements' = length elements
           \<and> map el_id elements' = map el_id elements
           \<and> (\<forall>i < length elements.
                 (el_id (elements ! i) \<in> selectedElements \<longrightarrow>
                      unplaced (elements' ! i) = unplaced (elements ! i)
                    \<and> positions (elements' ! i)
                        = map (\<lambda>p. (fst p + dxCanvas, snd p + dyCanvas)) (positions (elements ! i)))
               \<and> (el_id (elements ! i) \<notin> selectedElements \<longrightarrow> elements' ! i = elements ! i)))"
proof -
  define elements' where "elements' = moveSelected selectedElements viewport dx dy elements"
  have st: "handleMouseMove_pan T_select selectedElements dx dy (elements, viewport)
      = (elements', viewport)"
    using assms(1) by (simp add: handleMouseMove_pan_def elements'_def)
  have len: "length elements' = length elements"
    by (simp add: elements'_def moveSelected_def)
  have ids: "map el_id elements' = map el_id elements"
    by (simp add: elements'_def moveSelected_def moveElement_id Let_def)
  have sel: "unplaced (elements' ! i) = unplaced (elements ! i)
      \<and> positions (elements' ! i)
          = map (\<lambda>p. (fst p + dx / vp_scale viewport, snd p + dy / vp_scale viewport))
              (positions (elements ! i))"
    if "i < length elements" and "el_id (elements ! i) \<in> selectedElements" for i
    using that
    by (simp add: elements'_def moveSelected_def Let_def moveElement_unplaced moveElement_positions)
  have rest: "elements' ! i = elements ! i"
    if "i < length elements" and "el_id (elements ! i) \<notin> selectedElements" for i
    using that by (simp add: elements'_def moveSelected_def)
  from len ids sel rest show ?thesis
    unfolding Let_def st fst_conv snd_conv by blast
qed

theorem move_selection_frame_witness:
  "{''a''} \<noteq> ({} :: string set)
   \<and> vp_scale \<lparr>vp_x = 5, vp_y = 6, vp_scale = 2\<rparr> \<noteq> 0
   \<and> positions (fst (handleMouseMove_pan T_select {''a''} 30 (-10)
        ([Line (sampleAttrs ''a'') 0 0 10 10, Rectangle (sampleAttrs ''b'') 1 2 3 4],
         \<lparr>vp_x = 5, vp_y = 6, vp_scale = 2\<rparr>)) ! 0) = [(15, -5), (25, 5)]
   \<and> unplaced (fst (handleMouseMove_pan T_select {''a''} 30 (-10)
        ([Line (sampleAttrs ''a'') 0 0 10 10, Rectangle (sampleAttrs ''b'') 1 2 3 4],
         \<lparr>vp_x = 5, vp_y = 6, vp_scale = 2\<rparr>)) ! 0) = Line (sampleAttrs ''a'') 0 0 0 0
   \<and> fst (handleMouseMove_pan T_select {''a''} 30 (-10)
        ([Line (sampleAttrs ''a'') 0 0 10 10, Rectangle (sampleAttrs ''b'') 1 2 3 4],
         \<lparr>vp_x = 5, vp_y = 6, vp_scale = 2\<rparr>)) ! 1 = Rectangle (sampleAttrs ''b'') 1 2 3 4"
proof -
  let ?els = "[Line (sampleAttrs ''a'') 0 0 10 10, Rectangle (sampleAttrs ''b'') 1 2 3 4]"
  let ?v = "\<lparr>vp_x = 5, vp_y = 6, vp_scale = 2\<rparr>"
  let ?els' = "fst (handleMouseMove_pan T_select {''a''} 30 (-10) (?els, ?v))"
  have a: "{''a''} \<noteq> ({} :: string set)" by simp
  have b: "vp_scale ?v \<noteq> 0" by simp
  have ia: "el_id (?els ! 0) \<in> {''a''}" by (simp add: el_id_def sampleAttrs_def)
  have ib: "el_id (?els ! 1) \<notin> {''a''}" by (simp add: el_id_def sampleAttrs_def)
  from move_selection_frame [OF a b, of 30 "-10" ?els]
  have all: "\<forall>i < length ?els.
      (el_id (?els ! i) \<in> {''a''} \<longrightarrow>
           unplaced (?els' ! i) = unplaced (?els ! i)
         \<and> positions (?els' ! i)
             = map (\<lambda>p. (fst p + 30 / vp_scale ?v, snd p + (-10) / vp_scale ?v)) (positions (?els ! i)))
    \<and> (el_id (?els ! i) \<notin> {''a''} \<longrightarrow> ?els' ! i = ?els ! i)"
    unfolding Let_def by blast
  from all have "unplaced (?els' ! 0) = unplaced (?els ! 0)
      \<and> positions (?els' ! 0)
          = map (\<lambda>p. (fst p + 30 / vp_scale ?v, snd p + (-10) / vp_scale ?v)) (positions (?els ! 0))"
    using ia by (simp del: nth_Cons_0)
  then have 0: "unplaced (?els' ! 0) = Line (sampleAttrs ''a'') 0 0 0 0
      \<and> positions (?els' ! 0) = [(15, -5), (25, 5)]"
    by simp
  from all have "1 < length ?els \<longrightarrow> ?els' ! 1 = ?els ! 1"
    using ib by blast
  then have 1: "?els' ! 1 = Rectangle (sampleAttrs ''b'') 1 2 3 4" by simp
  from a b 0 1 show ?thesis by blast
qed

section \<open>History persistence theorems\<close>

lemma last50: "drop (length xs - 50) xs = rev (take 50 (rev xs))"
  by (simp add: take_rev)

lemma fates_shape:
  "fs = [] \<or> (\<exists>a. fs = [a]) \<or> (\<exists>a b r. fs = a # b # r)"
  by (cases fs; cases "tl fs") auto

lemma writesSucceed_shape:
  "writesSucceed 2 fs \<longleftrightarrow> fs = [] \<or> fs = [None] \<or> (\<exists>r. fs = None # None # r)"
  using fates_shape [of fs] by (auto simp: writesSucceed_def)

lemma quotaFailure_shape:
  "quotaFailure fs = Some r \<longleftrightarrow>
     fs = Some QuotaExceededError # r \<or> fs = None # Some QuotaExceededError # r"
  by (cases fs rule: quotaFailure.cases) auto

lemma saveHistory_frame:
  "k \<noteq> ''canvasHistory'' \<Longrightarrow> k \<noteq> ''canvasHistoryIndex'' \<Longrightarrow>
   items (saveHistory history historyIndex st) k = items st k"
  by (auto simp: saveHistory_def onSaveError_def saveCurrentOnly_def Let_def setItem_def removeItem_def
      split: list.splits option.splits prod.splits)

lemma saveHistory_success:
  assumes "writesSucceed 2 (fates st)"
  shows "items (saveHistory history historyIndex st)
     = (items st)(''canvasHistory'' \<mapsto> V_history (rev (take 50 (rev history))),
                 ''canvasHistoryIndex'' \<mapsto> V_index (min historyIndex (int (min 50 (length history)) - 1)))"
proof -
  have l: "int (length history - (length history - 50)) = int (min 50 (length history))" by auto
  from assms show ?thesis
    unfolding writesSucceed_shape
    by (auto simp: saveHistory_def Let_def setItem_def last50 [symmetric] l)
qed

lemma saveCurrentOnly_success:
  assumes "writesSucceed 2 (fates st)"
  shows "items (saveCurrentOnly history historyIndex st)
     = (items st)(''canvasHistory'' \<mapsto> V_history [currentElements history historyIndex],
                 ''canvasHistoryIndex'' \<mapsto> V_index 0)"
  using assms unfolding writesSucceed_shape
  by (auto simp: saveCurrentOnly_def setItem_def)

lemma saveCurrentOnly_failure:
  assumes "\<not> writesSucceed 2 (fates st)"
  shows "items (saveCurrentOnly history historyIndex st)
     = (items st)(''canvasHistory'' := None, ''canvasHistoryIndex'' := None)"
proof -
  from assms fates_shape [of "fates st"]
  have "(\<exists>e r. fates st = Some e # r) \<or> (\<exists>e r. fates st = None # Some e # r)"
    unfolding writesSucceed_shape by (metis not_Some_eq)
  then show ?thesis
    by (auto simp: saveCurrentOnly_def setItem_def removeItem_def fun_upd_twist)
qed

lemma saveHistory_quota:
  assumes "quotaFailure (fates st) = Some fs"
  shows "\<exists>st1. saveHistory history historyIndex st = saveCurrentOnly history historyIndex st1
      \<and> fates st1 = fs
      \<and> (items st1 = items st \<or> items st1 = (items st)(''canvasHistory'' \<mapsto> V_history (drop (length history - 50) history)))"
  using assms unfolding quotaFailure_shape
  by (auto simp: saveHistory_def Let_def setItem_def onSaveError_def)

text \<open>
  C9. When both writes succeed, the stored history is the most recent 50 snapshots.
  When a write fails with the quota error and the two writes of the fallback succeed,
  the stored history is the one snapshot at the cursor (the empty collection when the
  cursor is outside the history), with cursor 0. When the fallback fails as well, both
  history keys are removed. In every case every other key, the element collection among
  them, keeps its value.
\<close>

theorem saveHistory_fallback_chain:
  "(writesSucceed 2 (fates st) \<longrightarrow>
       items (saveHistory history historyIndex st)
         = (items st)(''canvasHistory'' \<mapsto> V_history (rev (take 50 (rev history))),
                     ''canvasHistoryIndex'' \<mapsto>
                        V_index (min historyIndex (int (min 50 (length history)) - 1))))
   \<and> (quotaFailure (fates st) = Some fs \<and> writesSucceed 2 fs
        \<and> 0 \<le> historyIndex \<and> historyIndex < int (length history) \<longrightarrow>
       items (saveHistory history historyIndex st)
         = (items st)(''canvasHistory'' \<mapsto> V_history [history ! nat historyIndex],
                     ''canvasHistoryIndex'' \<mapsto> V_index 0))
   \<and> (quotaFailure (fates st) = Some fs \<and> writesSucceed 2 fs
        \<and> \<not> (0 \<le> historyIndex \<and> historyIndex < int (length history)) \<longrightarrow>
       items (saveHistory history historyIndex st)
         = (items st)(''canvasHistory'' \<mapsto> V_history [[]],
                     ''canvasHistoryIndex'' \<mapsto> V_index 0))
   \<and> (quotaFailure (fates st) = Some fs \<and> \<not> writesSucceed 2 fs \<longrightarrow>
       items (saveHistory history historyIndex st)
         = (items st)(''canvasHistory'' := None, ''canvasHistoryIndex'' := None))
   \<and> (k \<noteq> ''canvasHistory'' \<and> k \<noteq> ''canvasHistoryIndex'' \<longrightarrow>
       items (saveHistory history historyIndex st) k = items st k)"
proof -
  have a: "items (saveHistory history historyIndex st)
         = (items st)(''canvasHistory'' \<mapsto> V_history (rev (take 50 (rev history))),
                     ''canvasHistoryIndex'' \<mapsto>
                        V_index (min historyIndex (int (min 50 (length history)) - 1)))"
    if "writesSucceed 2 (fates st)"
    using that by (rule saveHistory_success)
  have b: "items (saveHistory history historyIndex st)
         = (items st)(''canvasHistory'' \<mapsto> V_history [currentElements history historyIndex],
                     ''canvasHistoryIndex'' \<mapsto> V_index 0)"
    if q: "quotaFailure (fates st) = Some fs" and w: "writesSucceed 2 fs"
  proof -
    from saveHistory_quota [OF q, of history historyIndex] obtain st1 where
      1: "saveHistory history historyIndex st = saveCurrentOnly history historyIndex st1"
      and 2: "fates st1 = fs"
      and 3: "items st1 = items st \<or> items st1 = (items st)(''canvasHistory'' \<mapsto>
                V_history (drop (length history - 50) history))"
      by blast
    from w 2 have "writesSucceed 2 (fates st1)" by simp
    from saveCurrentOnly_success [OF this, of history historyIndex] 1 3 show ?thesis
      by auto
  qed
  have b1: "items (saveHistory history historyIndex st)
         = (items st)(''canvasHistory'' \<mapsto> V_history [history ! nat historyIndex],
                     ''canvasHistoryIndex'' \<mapsto> V_index 0)"
    if "quotaFailure (fates st) = Some fs" and "writesSucceed 2 fs"
      and "0 \<le> historyIndex" and "historyIndex < int (length history)"
    using b [OF that(1,2)] that(3,4) by (simp add: currentElements_def)
  have b2: "items (saveHistory history historyIndex st)
         = (items st)(''canvasHistory'' \<mapsto> V_history [[]],
                     ''canvasHistoryIndex'' \<mapsto> V_index 0)"
    if "quotaFailure (fates st) = Some fs" and "writesSucceed 2 fs"
      and "\<not> (0 \<le> historyIndex \<and> historyIndex < int (length history))"
    using b [OF that(1,2)] that(3) by (simp add: currentElements_def)
  have c: "items (saveHistory history historyIndex st)
         = (items st)(''canvasHistory'' := None, ''canvasHistoryIndex'' := None)"
    if q: "quotaFailure (fates st) = Some fs" and w: "\<not> writesSucceed 2 fs"
  proof -
    from saveHistory_quota [OF q, of history historyIndex] obtain st1 where
      1: "saveHistory history historyIndex st = saveCurrentOnly history historyIndex st1"
      and 2: "fates st1 = fs"
      and 3: "items st1 = items st \<or> items st1 = (items st)(''canvasHistory'' \<mapsto>
                V_history (drop (length history - 50) history))"
      by blast
    from w 2 have "\<not> writesSucceed 2 (fates st1)" by simp
    from saveCurrentOnly_failure [OF this, of history historyIndex] 1 3 show ?thesis
      by auto
  qed
  have d: "items (saveHistory history historyIndex st) k = items st k"
    if "k \<noteq> ''canvasHistory''" and "k \<noteq> ''canvasHistoryIndex''"
    using that by (rule saveHistory_frame)
  from a b1 b2 c d show ?thesis by blast
qed

theorem saveHistory_fallback_chain_witness:
  "items (saveHistory [[], [Circle (sampleAttrs ''c'') 0 0 5],
                       [Circle (sampleAttrs ''c'') 0 0 5, Circle (sampleAttrs ''d'') 9 9 1]] 1
        (sampleStorage []))
     = [''canvasElements'' \<mapsto> V_elements [Circle (sampleAttrs ''c'') 0 0 5],
        ''canvasHistory'' \<mapsto> V_history [[], [Circle (sampleAttrs ''c'') 0 0 5],
                       [Circle (sampleAttrs ''c'') 0 0 5, Circle (sampleAttrs ''d'') 9 9 1]],
        ''canvasHistoryIndex'' \<mapsto> V_index 1]
   \<and> items (saveHistory ([[Circle (sampleAttrs ''c'') 0 0 5]] @ replicate 50 []) 50
        (sampleStorage []))
     = [''canvasElements'' \<mapsto> V_elements [Circle (sampleAttrs ''c'') 0 0 5],
        ''canvasHistory'' \<mapsto> V_history (replicate 50 []),
        ''canvasHistoryIndex'' \<mapsto> V_index 49]
   \<and> items (saveHistory [[], [Circle (sampleAttrs ''c'') 0 0 5],
                       [Circle (sampleAttrs ''c'') 0 0 5, Circle (sampleAttrs ''d'') 9 9 1]] 1
        (sampleStorage [None, Some QuotaExceededError]))
     = [''canvasElements'' \<mapsto> V_elements [Circle (sampleAttrs ''c'') 0 0 5],
        ''canvasHistory'' \<mapsto> V_history [[Circle (sampleAttrs ''c'') 0 0 5]],
        ''canvasHistoryIndex'' \<mapsto> V_index 0]
   \<and> items (saveHistory [[], [Circle (sampleAttrs ''c'') 0 0 5],
                       [Circle (sampleAttrs ''c'') 0 0 5, Circle (sampleAttrs ''d'') 9 9 1]] 7
        (sampleStorage [Some QuotaExceededError]))
     = [''canvasElements'' \<mapsto> V_elements [Circle (sampleAttrs ''c'') 0 0 5],
        ''canvasHistory'' \<mapsto> V_history [[]],
        ''canvasHistoryIndex'' \<mapsto> V_index 0]
   \<and> items (saveHistory [[], [Circle (sampleAttrs ''c'') 0 0 5],
                       [Circle (sampleAttrs ''c'') 0 0 5, Circle (sampleAttrs ''d'') 9 9 1]] 1
        (sampleStorage [Some QuotaExceededError, None, Some QuotaExceededError]))
     = [''canvasElements'' \<mapsto> V_elements [Circle (sampleAttrs ''c'') 0 0 5]]
   \<and> items (saveHistory [[], [Circle (sampleAttrs ''c'') 0 0 5],
                       [Circle (sampleAttrs ''c'') 0 0 5, Circle (sampleAttrs ''d'') 9 9 1]] 1
        (sampleStorage [Some QuotaExceededError, Some OtherError])) ''canvasElements''
     = Some (V_elements [Circle (sampleAttrs ''c'') 0 0 5])"
proof -
  let ?h = "[[], [Circle (sampleAttrs ''c'') 0 0 5],
             [Circle (sampleAttrs ''c'') 0 0 5, Circle (sampleAttrs ''d'') 9 9 1]]"
  let ?l = "[[Circle (sampleAttrs ''c'') 0 0 5]] @ replicate 50 []"
  have 1: "writesSucceed 2 (fates (sampleStorage []))"
    by (simp add: writesSucceed_def sampleStorage_def)
  have 2: "quotaFailure (fates (sampleStorage [None, Some QuotaExceededError])) = Some []
      \<and> writesSucceed 2 [] \<and> (0::int) \<le> 1 \<and> 1 < int (length ?h)"
    by (simp add: writesSucceed_def sampleStorage_def)
  have 3: "quotaFailure (fates (sampleStorage [Some QuotaExceededError, None, Some QuotaExceededError]))
        = Some [None, Some QuotaExceededError]
      \<and> \<not> writesSucceed 2 [None, Some QuotaExceededError]"
    by (simp add: writesSucceed_def sampleStorage_def)
  have 4: "''canvasElements'' \<noteq> ''canvasHistory'' \<and> ''canvasElements'' \<noteq> ''canvasHistoryIndex''"
    by simp
  have 5: "quotaFailure (fates (sampleStorage [Some QuotaExceededError])) = Some []
      \<and> writesSucceed 2 [] \<and> \<not> ((0::int) \<le> 7 \<and> 7 < int (length ?h))"
    by (simp add: writesSucceed_def sampleStorage_def)
  have r: "rev (take 50 (rev ?l)) = replicate 50 []"
    by simp
  have a: "items (saveHistory ?h 1 (sampleStorage []))
     = [''canvasElements'' \<mapsto> V_elements [Circle (sampleAttrs ''c'') 0 0 5],
        ''canvasHistory'' \<mapsto> V_history ?h, ''canvasHistoryIndex'' \<mapsto> V_index 1]"
    using saveHistory_fallback_chain [where st = "sampleStorage []" and history = ?h and historyIndex = 1] 1
    by (simp add: sampleStorage_def)
  have t: "items (saveHistory ?l 50 (sampleStorage []))
     = [''canvasElements'' \<mapsto> V_elements [Circle (sampleAttrs ''c'') 0 0 5],
        ''canvasHistory'' \<mapsto> V_history (replicate 50 []), ''canvasHistoryIndex'' \<mapsto> V_index 49]"
    using saveHistory_fallback_chain [where st = "sampleStorage []" and history = ?l and historyIndex = 50] 1
    by (simp only: r) (simp add: sampleStorage_def)
  have b: "items (saveHistory ?h 1 (sampleStorage [None, Some QuotaExceededError]))
     = [''canvasElements'' \<mapsto> V_elements [Circle (sampleAttrs ''c'') 0 0 5],
        ''canvasHistory'' \<mapsto> V_history [[Circle (sampleAttrs ''c'') 0 0 5]],
        ''canvasHistoryIndex'' \<mapsto> V_index 0]"
    using saveHistory_fallback_chain [where st = "sampleStorage [None, Some QuotaExceededError]" and fs = "[]" and historyIndex = 1 and history = ?h] 2
    by (simp add: sampleStorage_def)
  have o: "items (saveHistory ?h 7 (sampleStorage [Some QuotaExceededError]))
     = [''canvasElements'' \<mapsto> V_elements [Circle (sampleAttrs ''c'') 0 0 5],
        ''canvasHistory'' \<mapsto> V_history [[]], ''canvasHistoryIndex'' \<mapsto> V_index 0]"
    using saveHistory_fallback_chain [where st = "sampleStorage [Some QuotaExceededError]" and fs = "[]" and historyIndex = 7 and history = ?h] 5
    by (simp add: sampleStorage_def)
  have d: "items (saveHistory ?h 1
        (sampleStorage [Some QuotaExceededError, None, Some QuotaExceededError]))
     = [''canvasElements'' \<mapsto> V_elements [Circle (sampleAttrs ''c'') 0 0 5]]"
    using saveHistory_fallback_chain [where st = "sampleStorage [Some QuotaExceededError, None, Some QuotaExceededError]"
        and fs = "[None, Some QuotaExceededError]" and historyIndex = 1 and history = ?h] 3
    by (simp add: sampleStorage_def)
  have e: "items (saveHistory ?h 1
        (sampleStorage [Some QuotaExceededError, Some OtherError])) ''canvasElements''
     = Some (V_elements [Circle (sampleAttrs ''c'') 0 0 5])"
    using saveHistory_fallback_chain [where st = "sampleStorage [Some QuotaExceededError, Some OtherError]"
        and history = ?h and historyIndex = 1 and k = "''canvasElements''"] 4
    by (simp add: sampleStorage_def)
  from a t b o d e show ?thesis by blast
qed

section \<open>Bounds of shapes drawn towards the upper left\<close>

text \<open>
  C7. The bounds of a rectangle, ellipse or diamond are its stored fields, also when
  width or height is negative: a rectangle drawn from (100, 100) to (50, 70) is stored
  with width -50 and height -30 and has bounds of width -50 and height -30 at
  (100, 100), not the box of width 50 and height 30 at (50, 70); no point lies in it
  for the hit test. A line between the same two points has the normalized box.
\<close>

theorem getElementBounds_not_normalized:
  "drawUpdate (50, 70) (Rectangle c 100 100 0 0) = Rectangle c 100 100 (-50) (-30)
   \<and> getElementBounds ctx (Rectangle c 100 100 (-50) (-30))
       = Some \<lparr>bnd_x = 100, bnd_y = 100, bnd_width = -50, bnd_height = -30\<rparr>
   \<and> \<not> isPointInElement ctx (75, 85) (Rectangle c 100 100 (-50) (-30))
   \<and> getElementBounds ctx (Line c 100 100 50 70)
       = Some \<lparr>bnd_x = 50, bnd_y = 70, bnd_width = 50, bnd_height = 30\<rparr>"
  by (simp add: isPointInElement_def)

section \<open>Marquee theorems\<close>

text \<open>
  For an element whose bounds have non-negative width and height, the test of the
  marquee is containment: all four corners of the bounds lie in the box.
\<close>

lemma inSelectionBox_normalized:
  assumes "getElementBounds ctx el = Some b" and "0 \<le> bnd_width b" and "0 \<le> bnd_height b"
  shows "inSelectionBox ctx (s, e) el \<longleftrightarrow>
     (\<forall>px \<in> {bnd_x b, bnd_x b + bnd_width b}. \<forall>py \<in> {bnd_y b, bnd_y b + bnd_height b}.
        min (fst s) (fst e) \<le> px \<and> px \<le> max (fst s) (fst e) \<and>
        min (snd s) (snd e) \<le> py \<and> py \<le> max (snd s) (snd e))"
  using assms by (auto simp: inSelectionBox_def Let_def)

text \<open>
  C4. Pointer-up of the marquee selects the elements that pass the test on their
  bounds. With bounds of negative width the test is not containment: the rectangle
  drawn from (100, 10) to (-100, 20) covers x from -100 to 100, crosses both vertical
  sides of the box from (0, 0) to (50, 50), and is selected.
\<close>

theorem marquee_selects_straddling_rectangle:
  "drawUpdate (-100, 20) (Rectangle (sampleAttrs ''r'') 100 10 0 0)
     = Rectangle (sampleAttrs ''r'') 100 10 (-200) 10
   \<and> handleMouseUp_selectionBox ctx ((0, 0), (50, 50))
        [Rectangle (sampleAttrs ''r'') 100 10 (-200) 10] = {''r''}"
  by (simp add: handleMouseUp_selectionBox_def inSelectionBox_def el_id_def sampleAttrs_def Let_def)

section \<open>Duplicate and paste theorems\<close>

text \<open>
  A clone carries the new identifier, and the positional fields of every variant but
  the path are offset by (20, 20).
\<close>

lemma cloneElement_id: "el_id (cloneElement newId el) = newId"
  by (cases el) (simp_all add: el_id_def)

lemma cloneElement_positions:
  "(\<forall>c pts. el \<noteq> Path c pts) \<Longrightarrow>
   positions (cloneElement newId el) = map (\<lambda>p. (fst p + 20, snd p + 20)) (positions el)"
  by (cases el) simp_all

text \<open>
  C6. Duplicate and paste append one clone for each matched element, with a new
  identifier. The points of a path are not among the fields that are offset: the
  clone of a path has the points of the original, where a move by (20, 20) shifts
  every point.
\<close>

theorem duplicate_path_not_offset:
  "duplicate freshId {''p''} [Path (sampleAttrs ''p'') [(0, 0), (10, 10)]]
     = [Path (sampleAttrs ''p'') [(0, 0), (10, 10)],
        Path (sampleAttrs (freshId 0)) [(0, 0), (10, 10)]]
   \<and> paste freshId (Some [Path (sampleAttrs ''p'') [(0, 0), (10, 10)]])
        [Path (sampleAttrs ''p'') [(0, 0), (10, 10)]]
     = [Path (sampleAttrs ''p'') [(0, 0), (10, 10)],
        Path (sampleAttrs (freshId 0)) [(0, 0), (10, 10)]]
   \<and> moveElement 20 20 (Path (sampleAttrs ''p'') [(0, 0), (10, 10)])
     = Path (sampleAttrs ''p'') [(20, 20), (30, 30)]"
  by (simp add: duplicate_def paste_def cloneAll_def el_id_def sampleAttrs_def Let_def)

end
